theory Spec2Isabelle
  imports Main
begin

section \<open>The evaluation driver \<open>evaluate.py\<close>\<close>

text \<open>
  The script is one straight line of statements: it writes two tracing variables into
  \<open>os.environ\<close>, checks two credentials, builds a chat client, creates a dataset with
  two examples, and calls the remote evaluate operation, printing what it returns.
  Everything it calls lives in third-party libraries. The model therefore has
  \<^item> a \<open>state\<close>: the process environment, the list of calls made into the libraries so
    far (in order), and the text written to standard output;
  \<^item> a \<open>world\<close>: one function per library entry point, giving the outcome of a call
    (an exception or a value) from the calls made before it and its arguments.
\<close>

subsection \<open>Python values, exceptions and library calls\<close>

datatype pyval = PNone | PBool bool | PInt int | PStr string

type_synonym pydict = "string \<rightharpoonup> pyval"

text \<open>An object handed out by a library, of which the script knows nothing.\<close>

datatype pyobj = Obj nat

datatype pyerror =
    ValueError string
  | KeyError string
  | TypeError string
  | OtherError string

text \<open>The two functions of the script that are passed to the library by reference.\<close>

datatype callable = Ref_target | Ref_correctness_evaluator

record response =
  content :: pyval

record dataset =
  dataset_id :: string

text \<open>A call into a library, with the arguments as the script wrote them.\<close>

datatype event =
    Call_ChatGoogleGenerativeAI string string
  | Call_wrap_google_generative_ai pyobj
  | Call_invoke pyobj "pydict list"
  | Call_Client
  | Call_create_dataset pyobj string string
  | Call_create_example pyobj string pydict pydict
  | Call_create_llm_as_judge string string string
  | Call_evaluator pyobj pydict pydict pydict
  | Call_evaluate pyobj callable string "callable list" string int

record state =
  environ :: "string \<rightharpoonup> string"
  trace :: "event list"
  stdout :: string

text \<open>
  The libraries. Every entry point may raise (\<open>Inl\<close>) or return (\<open>Inr\<close>), and sees the
  calls made so far, so that a stub counting its calls is an instance.
  \<open>CORRECTNESS_PROMPT\<close> is the imported constant, \<open>py_str\<close> is \<open>str()\<close> on the object
  that evaluate returns. \<open>evaluate\<close> is given \<open>target\<close> and \<open>correctness_evaluator\<close> by
  reference; what it does with them happens inside the library and is part of its
  outcome. \<open>stdout\<close> holds what the script itself prints.
\<close>

record world =
  ChatGoogleGenerativeAI :: "event list \<Rightarrow> string \<Rightarrow> string \<Rightarrow> pyerror + pyobj"
  wrap_google_generative_ai :: "event list \<Rightarrow> pyobj \<Rightarrow> pyerror + pyobj"
  invoke :: "event list \<Rightarrow> pyobj \<Rightarrow> pydict list \<Rightarrow> pyerror + response"
  Client :: "event list \<Rightarrow> pyerror + pyobj"
  create_dataset :: "event list \<Rightarrow> pyobj \<Rightarrow> string \<Rightarrow> string \<Rightarrow> pyerror + dataset"
  create_example :: "event list \<Rightarrow> pyobj \<Rightarrow> string \<Rightarrow> pydict \<Rightarrow> pydict \<Rightarrow> pyerror + pyobj"
  CORRECTNESS_PROMPT :: string
  create_llm_as_judge :: "event list \<Rightarrow> string \<Rightarrow> string \<Rightarrow> string \<Rightarrow> pyerror + pyobj"
  evaluator_call :: "event list \<Rightarrow> pyobj \<Rightarrow> pydict \<Rightarrow> pydict \<Rightarrow> pydict \<Rightarrow> pyerror + pyobj"
  evaluate :: "event list \<Rightarrow> pyobj \<Rightarrow> callable \<Rightarrow> string \<Rightarrow> callable list \<Rightarrow> string \<Rightarrow> int
                 \<Rightarrow> pyerror + pyobj"
  py_str :: "pyobj \<Rightarrow> string"

subsection \<open>Sequencing\<close>

text \<open>A statement runs on a state and raises or yields a value, with the new state.\<close>

type_synonym 'a prog = "state \<Rightarrow> (pyerror + 'a) \<times> state"

definition and_then :: "'a prog \<Rightarrow> ('a \<Rightarrow> 'b prog) \<Rightarrow> 'b prog" where
  "and_then m f s = (case m s of (Inl e, s') \<Rightarrow> (Inl e, s') | (Inr a, s') \<Rightarrow> f a s')"

text \<open>A library call is recorded when it is made, whether it raises or not.\<close>

definition call :: "(event list \<Rightarrow> pyerror + 'a) \<Rightarrow> event \<Rightarrow> 'a prog" where
  "call f ev s = (f (trace s), s\<lparr>trace := trace s @ [ev]\<rparr>)"

fun succeeds :: "pyerror + 'a \<Rightarrow> bool" where
  "succeeds (Inl e) = False"
| "succeeds (Inr a) = True"

subsection \<open>The process environment\<close>

text \<open>\<open>os.getenv(k)\<close> is \<open>None\<close> or a string; \<open>not v\<close> holds for \<open>None\<close> and for \<open>""\<close>.\<close>

definition getenv :: "state \<Rightarrow> string \<Rightarrow> string option" where
  "getenv s k = environ s k"

fun truthy :: "string option \<Rightarrow> bool" where
  "truthy None = False"
| "truthy (Some v) = (v \<noteq> [])"

text \<open>\<open>os.environ[k] = v\<close> and \<open>os.environ[k]\<close>.\<close>

definition environ_set :: "string \<Rightarrow> string \<Rightarrow> state \<Rightarrow> state" where
  "environ_set k v s = s\<lparr>environ := (environ s)(k \<mapsto> v)\<rparr>"

definition environ_get :: "string \<Rightarrow> string prog" where
  "environ_get k s = (case environ s k of None \<Rightarrow> (Inl (KeyError k), s) | Some v \<Rightarrow> (Inr v, s))"

subsection \<open>Lines 8 to 17: tracing variables and the credential checks\<close>

definition bootstrap :: "unit prog" where
  "bootstrap s0 =
     (let s1 = environ_set ''LANGSMITH_TRACING'' ''true'' s0;
          s2 = environ_set ''LANGSMITH_ENDPOINT'' ''https://api.smith.langchain.com'' s1
      in if \<not> truthy (getenv s2 ''LANGSMITH_API_KEY'')
         then (Inl (ValueError ''Please set the LANGSMITH_API_KEY environment variable''), s2)
         else (case getenv s2 ''LANGSMITH_API_KEY'' of
                 None \<Rightarrow> (Inl (TypeError ''str expected, not NoneType''), s2)
               | Some v \<Rightarrow>
                   (let s3 = environ_set ''LANGSMITH_API_KEY'' v s2
                    in if \<not> truthy (getenv s3 ''GOOGLE_API_KEY'')
                       then (Inl (ValueError ''Please set the GOOGLE_API_KEY environment variable''), s3)
                       else (Inr (), s3))))"

subsection \<open>Lines 24 to 31: \<open>target\<close>\<close>

text \<open>
  The argument list of \<open>invoke\<close> is built before the call, so a missing \<open>"question"\<close>
  raises \<open>KeyError\<close> with no call made. \<open>openai_client\<close> is the module's global.
\<close>

definition target :: "world \<Rightarrow> pyobj \<Rightarrow> pydict \<Rightarrow> pydict prog" where
  "target w openai_client inputs s =
     (case inputs ''question'' of
        None \<Rightarrow> (Inl (KeyError ''question''), s)
      | Some question \<Rightarrow>
          (let messages =
                 [[''role'' \<mapsto> PStr ''system'',
                   ''content'' \<mapsto> PStr ''Answer the following question accurately''],
                  [''role'' \<mapsto> PStr ''user'', ''content'' \<mapsto> question]]
           in and_then
                (call (\<lambda>h. invoke w h openai_client messages) (Call_invoke openai_client messages))
                (\<lambda>response s'. (Inr [''answer'' \<mapsto> content response], s')) s))"

subsection \<open>Lines 38 to 55: the examples and the loop that sends them\<close>

definition examples :: "(string \<rightharpoonup> pydict) list" where
  "examples =
     [[''inputs'' \<mapsto> [''question'' \<mapsto> PStr ''Which country is Mount Kilimanjaro located in?''],
       ''outputs'' \<mapsto> [''answer'' \<mapsto> PStr ''Mount Kilimanjaro is located in Tanzania.'']],
      [''inputs'' \<mapsto> [''question'' \<mapsto> PStr ''What is Earth's lowest point?''],
       ''outputs'' \<mapsto> [''answer'' \<mapsto> PStr ''Earth's lowest point is The Dead Sea.'']]]"

fun create_examples :: "world \<Rightarrow> pyobj \<Rightarrow> dataset \<Rightarrow> (string \<rightharpoonup> pydict) list \<Rightarrow> unit prog" where
  "create_examples w client ds [] s = (Inr (), s)"
| "create_examples w client ds (example # rest) s =
     (case example ''inputs'' of
        None \<Rightarrow> (Inl (KeyError ''inputs''), s)
      | Some ins \<Rightarrow>
          (case example ''outputs'' of
             None \<Rightarrow> (Inl (KeyError ''outputs''), s)
           | Some outs \<Rightarrow>
               and_then
                 (call (\<lambda>h. create_example w h client (dataset_id ds) ins outs)
                       (Call_create_example client (dataset_id ds) ins outs))
                 (\<lambda>_. create_examples w client ds rest) s))"

subsection \<open>Lines 58 to 67: \<open>correctness_evaluator\<close>\<close>

definition correctness_evaluator :: "world \<Rightarrow> pydict \<Rightarrow> pydict \<Rightarrow> pydict \<Rightarrow> pyobj prog" where
  "correctness_evaluator w inputs outputs reference_outputs =
     and_then
       (call (\<lambda>h. create_llm_as_judge w h (CORRECTNESS_PROMPT w) ''gemini-1.5-flash'' ''correctness'')
             (Call_create_llm_as_judge (CORRECTNESS_PROMPT w) ''gemini-1.5-flash'' ''correctness''))
       (\<lambda>evaluator.
          and_then
            (call (\<lambda>h. evaluator_call w h evaluator inputs outputs reference_outputs)
                  (Call_evaluator evaluator inputs outputs reference_outputs))
            (\<lambda>eval_result s. (Inr eval_result, s)))"

subsection \<open>Line 78: \<open>print\<close>\<close>

text \<open>\<open>print(a, b)\<close> writes the texts of its arguments with one space between, then a newline.\<close>

fun join_sep :: "string \<Rightarrow> string list \<Rightarrow> string" where
  "join_sep sep [] = []"
| "join_sep sep [x] = x"
| "join_sep sep (x # y # ys) = x @ sep @ join_sep sep (y # ys)"

definition print :: "string list \<Rightarrow> state \<Rightarrow> state" where
  "print args s = s\<lparr>stdout := stdout s @ join_sep '' '' args @ [CHR 0x0A]\<rparr>"

subsection \<open>The whole module, top to bottom\<close>

definition script :: "world \<Rightarrow> unit prog" where
  "script w =
     and_then bootstrap (\<lambda>_.
     and_then (environ_get ''GOOGLE_API_KEY'') (\<lambda>api_key.
     and_then (call (\<lambda>h. ChatGoogleGenerativeAI w h api_key ''gemini-1.5-flash'')
                    (Call_ChatGoogleGenerativeAI api_key ''gemini-1.5-flash'')) (\<lambda>chat.
     and_then (call (\<lambda>h. wrap_google_generative_ai w h chat)
                    (Call_wrap_google_generative_ai chat)) (\<lambda>openai_client.
     and_then (call (Client w) Call_Client) (\<lambda>client.
     and_then (call (\<lambda>h. create_dataset w h client ''ds-somber-trailer-42''
                                         ''A sample dataset in LangSmith.'')
                    (Call_create_dataset client ''ds-somber-trailer-42''
                                         ''A sample dataset in LangSmith.'')) (\<lambda>ds.
     and_then (create_examples w client ds examples) (\<lambda>_.
     and_then (call (\<lambda>h. evaluate w h client Ref_target ''ds-somber-trailer-42''
                                    [Ref_correctness_evaluator]
                                    ''experiment-quickstart-excellent-curiosity-99'' 2)
                    (Call_evaluate client Ref_target ''ds-somber-trailer-42''
                                   [Ref_correctness_evaluator]
                                   ''experiment-quickstart-excellent-curiosity-99'' 2))
              (\<lambda>experiment_results s.
                 (Inr (), print [''Evaluation completed. Results:'', py_str w experiment_results] s))
     )))))))"

text \<open>A run of the script: the given environment, no call made, nothing printed.\<close>

definition init :: "(string \<rightharpoonup> string) \<Rightarrow> state" where
  "init e = \<lparr>environ = e, trace = [], stdout = []\<rparr>"

definition run :: "world \<Rightarrow> (string \<rightharpoonup> string) \<Rightarrow> (pyerror + unit) \<times> state" where
  "run w e = script w (init e)"

subsection \<open>Reading the record of calls\<close>

text \<open>
  What a test asserts on a stubbed library: the arguments of every evaluate call (the
  dataset name and the concurrency limit), the name given to every dataset creation, and
  the inputs and outputs of every example creation, in the order of the calls.
\<close>

fun evaluate_calls :: "event list \<Rightarrow> (string \<times> int) list" where
  "evaluate_calls [] = []"
| "evaluate_calls (Call_evaluate client tgt data evaluators experiment_prefix max_concurrency # es) =
     (data, max_concurrency) # evaluate_calls es"
| "evaluate_calls (ev # es) = evaluate_calls es"

fun create_dataset_calls :: "event list \<Rightarrow> string list" where
  "create_dataset_calls [] = []"
| "create_dataset_calls (Call_create_dataset client dataset_name description # es) =
     dataset_name # create_dataset_calls es"
| "create_dataset_calls (ev # es) = create_dataset_calls es"

fun create_example_calls :: "event list \<Rightarrow> (pydict \<times> pydict) list" where
  "create_example_calls [] = []"
| "create_example_calls (Call_create_example client ds_id ins outs # es) =
     (ins, outs) # create_example_calls es"
| "create_example_calls (ev # es) = create_example_calls es"

text \<open>The environment once both credential checks have passed.\<close>

definition final_environ :: "(string \<rightharpoonup> string) \<Rightarrow> string \<Rightarrow> (string \<rightharpoonup> string)" where
  "final_environ e v = e(''LANGSMITH_TRACING'' \<mapsto> ''true'',
                          ''LANGSMITH_ENDPOINT'' \<mapsto> ''https://api.smith.langchain.com'',
                          ''LANGSMITH_API_KEY'' \<mapsto> v)"

text \<open>
  The calls the script has made when it reaches line 70, if none of them raised: \<open>g\<close> is
  the Google key, \<open>chat\<close>, \<open>c\<close> and \<open>d\<close> are the chat model, the client and the dataset
  that the libraries returned. Then the evaluate call of lines 70 to 76.
\<close>

definition calls_before_evaluate :: "string \<Rightarrow> pyobj \<Rightarrow> pyobj \<Rightarrow> dataset \<Rightarrow> event list" where
  "calls_before_evaluate g chat c d =
     [Call_ChatGoogleGenerativeAI g ''gemini-1.5-flash'',
      Call_wrap_google_generative_ai chat,
      Call_Client,
      Call_create_dataset c ''ds-somber-trailer-42'' ''A sample dataset in LangSmith.'',
      Call_create_example c (dataset_id d)
        [''question'' \<mapsto> PStr ''Which country is Mount Kilimanjaro located in?'']
        [''answer'' \<mapsto> PStr ''Mount Kilimanjaro is located in Tanzania.''],
      Call_create_example c (dataset_id d)
        [''question'' \<mapsto> PStr ''What is Earth's lowest point?'']
        [''answer'' \<mapsto> PStr ''Earth's lowest point is The Dead Sea.'']]"

definition evaluate_call :: "pyobj \<Rightarrow> event" where
  "evaluate_call c =
     Call_evaluate c Ref_target ''ds-somber-trailer-42'' [Ref_correctness_evaluator]
       ''experiment-quickstart-excellent-curiosity-99'' 2"

subsection \<open>A stub of the libraries\<close>

text \<open>Every call returns; the chat model always answers \<open>Tanzania\<close>.\<close>

definition stub_world :: world where
  "stub_world =
     \<lparr>ChatGoogleGenerativeAI = (\<lambda>h k m. Inr (Obj 1)),
      wrap_google_generative_ai = (\<lambda>h c. Inr (Obj 2)),
      invoke = (\<lambda>h c ms. Inr \<lparr>content = PStr ''Tanzania''\<rparr>),
      Client = (\<lambda>h. Inr (Obj 3)),
      create_dataset = (\<lambda>h c n d. Inr \<lparr>dataset_id = ''d-1''\<rparr>),
      create_example = (\<lambda>h c i ins outs. Inr (Obj (length h))),
      CORRECTNESS_PROMPT = ''Is the answer correct?'',
      create_llm_as_judge = (\<lambda>h p m k. Inr (Obj 7)),
      evaluator_call = (\<lambda>h g i out r. Inr (Obj 8)),
      evaluate = (\<lambda>h c t d evs p n. Inr (Obj 9)),
      py_str = (\<lambda>x. ''<ExperimentResults>'')\<rparr>"


section \<open>Properties\<close>

subsection \<open>Sequencing and the credential checks\<close>

lemma and_then_Inl: "m s = (Inl e, s') \<Longrightarrow> and_then m f s = (Inl e, s')"
  by (simp add: and_then_def)

lemma not_truthy_iff: "\<not> truthy x \<longleftrightarrow> x = None \<or> x = Some []"
  by (cases x) auto

lemma bootstrap_no_langsmith_key:
  assumes "e ''LANGSMITH_API_KEY'' = None \<or> e ''LANGSMITH_API_KEY'' = Some []"
  shows "bootstrap (init e) =
           (Inl (ValueError ''Please set the LANGSMITH_API_KEY environment variable''),
            \<lparr>environ = e(''LANGSMITH_TRACING'' \<mapsto> ''true'',
                          ''LANGSMITH_ENDPOINT'' \<mapsto> ''https://api.smith.langchain.com''),
             trace = [], stdout = []\<rparr>)"
  using assms by (auto simp: bootstrap_def init_def environ_set_def getenv_def)

lemma bootstrap_no_google_key:
  assumes "e ''LANGSMITH_API_KEY'' = Some v" "v \<noteq> []"
    and "e ''GOOGLE_API_KEY'' = None \<or> e ''GOOGLE_API_KEY'' = Some []"
  shows "bootstrap (init e) =
           (Inl (ValueError ''Please set the GOOGLE_API_KEY environment variable''),
            \<lparr>environ = e(''LANGSMITH_TRACING'' \<mapsto> ''true'',
                          ''LANGSMITH_ENDPOINT'' \<mapsto> ''https://api.smith.langchain.com'',
                          ''LANGSMITH_API_KEY'' \<mapsto> v),
             trace = [], stdout = []\<rparr>)"
  using assms by (auto simp: bootstrap_def init_def environ_set_def getenv_def)

lemma bootstrap_ok:
  assumes "e ''LANGSMITH_API_KEY'' = Some v" "v \<noteq> []"
    and "e ''GOOGLE_API_KEY'' = Some g" "g \<noteq> []"
  shows "bootstrap (init e) =
           (Inr (),
            \<lparr>environ = e(''LANGSMITH_TRACING'' \<mapsto> ''true'',
                          ''LANGSMITH_ENDPOINT'' \<mapsto> ''https://api.smith.langchain.com'',
                          ''LANGSMITH_API_KEY'' \<mapsto> v),
             trace = [], stdout = []\<rparr>)"
  using assms by (auto simp: bootstrap_def init_def environ_set_def getenv_def)

lemma run_bootstrap_fails:
  "bootstrap (init e) = (Inl err, s) \<Longrightarrow> run w e = (Inl err, s)"
  by (simp add: run_def script_def and_then_Inl)

lemma run_missing_credential:
  assumes "\<not> truthy (e ''LANGSMITH_API_KEY'') \<or> \<not> truthy (e ''GOOGLE_API_KEY'')"
  shows "run w e =
           (Inl (ValueError
                   (if \<not> truthy (e ''LANGSMITH_API_KEY'')
                    then ''Please set the LANGSMITH_API_KEY environment variable''
                    else ''Please set the GOOGLE_API_KEY environment variable'')),
            \<lparr>environ = e(''LANGSMITH_TRACING'' \<mapsto> ''true'',
                          ''LANGSMITH_ENDPOINT'' \<mapsto> ''https://api.smith.langchain.com''),
             trace = [], stdout = []\<rparr>)"
proof (cases "truthy (e ''LANGSMITH_API_KEY'')")
  case False
  then have "e ''LANGSMITH_API_KEY'' = None \<or> e ''LANGSMITH_API_KEY'' = Some []"
    by (simp add: not_truthy_iff)
  from run_bootstrap_fails [OF bootstrap_no_langsmith_key [of e, OF this]] False
  show ?thesis by simp
next
  case True
  then obtain v where v: "e ''LANGSMITH_API_KEY'' = Some v" "v \<noteq> []"
    by (cases "e ''LANGSMITH_API_KEY''") auto
  from True assms have "e ''GOOGLE_API_KEY'' = None \<or> e ''GOOGLE_API_KEY'' = Some []"
    by (simp add: not_truthy_iff)
  note r = run_bootstrap_fails [OF bootstrap_no_google_key [of e, OF v this]]
  have "(e(''LANGSMITH_TRACING'' \<mapsto> ''true'',
           ''LANGSMITH_ENDPOINT'' \<mapsto> ''https://api.smith.langchain.com''))
          ''LANGSMITH_API_KEY'' = Some v"
    using v by simp
  then have "e(''LANGSMITH_TRACING'' \<mapsto> ''true'',
               ''LANGSMITH_ENDPOINT'' \<mapsto> ''https://api.smith.langchain.com'',
               ''LANGSMITH_API_KEY'' \<mapsto> v)
             = e(''LANGSMITH_TRACING'' \<mapsto> ''true'',
                 ''LANGSMITH_ENDPOINT'' \<mapsto> ''https://api.smith.langchain.com'')"
    by (rule map_upd_triv)
  with r True show ?thesis by simp
qed

lemma bootstrap_raises_iff:
  "(\<exists>err. fst (bootstrap (init e)) = Inl err) \<longleftrightarrow>
     \<not> truthy (e ''LANGSMITH_API_KEY'') \<or> \<not> truthy (e ''GOOGLE_API_KEY'')"
proof (cases "truthy (e ''LANGSMITH_API_KEY'')")
  case False
  then have "e ''LANGSMITH_API_KEY'' = None \<or> e ''LANGSMITH_API_KEY'' = Some []"
    by (simp add: not_truthy_iff)
  from bootstrap_no_langsmith_key [of e, OF this] False show ?thesis by simp
next
  case True
  then obtain v where v: "e ''LANGSMITH_API_KEY'' = Some v" "v \<noteq> []"
    by (cases "e ''LANGSMITH_API_KEY''") auto
  show ?thesis
  proof (cases "truthy (e ''GOOGLE_API_KEY'')")
    case False
    then have "e ''GOOGLE_API_KEY'' = None \<or> e ''GOOGLE_API_KEY'' = Some []"
      by (simp add: not_truthy_iff)
    from bootstrap_no_google_key [of e, OF v this] False show ?thesis by simp
  next
    case G: True
    then obtain g where g: "e ''GOOGLE_API_KEY'' = Some g" "g \<noteq> []"
      by (cases "e ''GOOGLE_API_KEY''") auto
    from bootstrap_ok [of e, OF v g] True G show ?thesis by simp
  qed
qed

subsection \<open>The run up to the evaluate call\<close>

lemma succeeds_obtain: "succeeds x \<Longrightarrow> \<exists>a. x = Inr a"
  by (cases x) auto

lemma create_examples_two:
  assumes "create_example w (trace s) c (dataset_id d) i1 o1 = Inr x1"
    and "create_example w (trace s @ [Call_create_example c (dataset_id d) i1 o1]) c (dataset_id d) i2 o2
           = Inr x2"
  shows "create_examples w c d [[''inputs'' \<mapsto> i1, ''outputs'' \<mapsto> o1],
                                [''inputs'' \<mapsto> i2, ''outputs'' \<mapsto> o2]] s =
           (Inr (), s\<lparr>trace := trace s @ [Call_create_example c (dataset_id d) i1 o1,
                                           Call_create_example c (dataset_id d) i2 o2]\<rparr>)"
  using assms by (simp add: and_then_def call_def)

lemma run_reaches_evaluate:
  assumes L: "e ''LANGSMITH_API_KEY'' = Some v" "v \<noteq> []"
    and G: "e ''GOOGLE_API_KEY'' = Some g" "g \<noteq> []"
    and chat: "\<And>h k m. succeeds (ChatGoogleGenerativeAI w h k m)"
    and wrap: "\<And>h c. succeeds (wrap_google_generative_ai w h c)"
    and client: "\<And>h. succeeds (Client w h)"
    and dataset: "\<And>h c n d. succeeds (create_dataset w h c n d)"
    and example: "\<And>h c i ins outs. succeeds (create_example w h c i ins outs)"
  shows "\<exists>chat c (d :: dataset).
           run w e =
             (case evaluate w (calls_before_evaluate g chat c d) c Ref_target
                     ''ds-somber-trailer-42'' [Ref_correctness_evaluator]
                     ''experiment-quickstart-excellent-curiosity-99'' 2 of
                Inl err \<Rightarrow>
                  (Inl err,
                   \<lparr>environ = final_environ e v,
                    trace = calls_before_evaluate g chat c d @ [evaluate_call c],
                    stdout = []\<rparr>)
              | Inr r \<Rightarrow>
                  (Inr (),
                   \<lparr>environ = final_environ e v,
                    trace = calls_before_evaluate g chat c d @ [evaluate_call c],
                    stdout = ''Evaluation completed. Results: '' @ py_str w r @ [CHR 0x0A]\<rparr>))"
proof -
  let ?s1 = "\<lparr>environ = final_environ e v, trace = [], stdout = []\<rparr>"
  have b: "bootstrap (init e) = (Inr (), ?s1)"
    using bootstrap_ok [of e, OF L G] by (simp add: final_environ_def)
  have k: "environ_get ''GOOGLE_API_KEY'' ?s1 = (Inr g, ?s1)"
    using G by (simp add: environ_get_def final_environ_def)
  obtain ch where ch: "ChatGoogleGenerativeAI w [] g ''gemini-1.5-flash'' = Inr ch"
    by (rule exE [OF succeeds_obtain [OF chat]])
  let ?e1 = "Call_ChatGoogleGenerativeAI g ''gemini-1.5-flash''"
  obtain oc where oc: "wrap_google_generative_ai w [?e1] ch = Inr oc"
    by (rule exE [OF succeeds_obtain [OF wrap]])
  let ?e2 = "Call_wrap_google_generative_ai ch"
  obtain c where c: "Client w [?e1, ?e2] = Inr c"
    by (rule exE [OF succeeds_obtain [OF client]])
  let ?e4 = "Call_create_dataset c ''ds-somber-trailer-42'' ''A sample dataset in LangSmith.''"
  obtain d where d: "create_dataset w [?e1, ?e2, Call_Client] c ''ds-somber-trailer-42''
                       ''A sample dataset in LangSmith.'' = Inr d"
    by (rule exE [OF succeeds_obtain [OF dataset]])
  let ?q1 = "[''question'' \<mapsto> PStr ''Which country is Mount Kilimanjaro located in?'']"
  let ?a1 = "[''answer'' \<mapsto> PStr ''Mount Kilimanjaro is located in Tanzania.'']"
  let ?q2 = "[''question'' \<mapsto> PStr ''What is Earth's lowest point?'']"
  let ?a2 = "[''answer'' \<mapsto> PStr ''Earth's lowest point is The Dead Sea.'']"
  let ?s2 = "\<lparr>environ = final_environ e v, trace = [?e1], stdout = []\<rparr>"
  let ?s3 = "\<lparr>environ = final_environ e v, trace = [?e1, ?e2], stdout = []\<rparr>"
  let ?s4 = "\<lparr>environ = final_environ e v, trace = [?e1, ?e2, Call_Client], stdout = []\<rparr>"
  let ?s5 = "\<lparr>environ = final_environ e v, trace = [?e1, ?e2, Call_Client, ?e4], stdout = []\<rparr>"
  obtain x1 where x1: "create_example w (trace ?s5) c (dataset_id d) ?q1 ?a1 = Inr x1"
    by (rule exE [OF succeeds_obtain [OF example]])
  obtain x2 where x2: "create_example w (trace ?s5 @ [Call_create_example c (dataset_id d) ?q1 ?a1])
                         c (dataset_id d) ?q2 ?a2 = Inr x2"
    by (rule exE [OF succeeds_obtain [OF example]])
  let ?h = "calls_before_evaluate g ch c d"
  let ?s6 = "\<lparr>environ = final_environ e v, trace = ?h, stdout = []\<rparr>"
  have ex: "create_examples w c d examples ?s5 = (Inr (), ?s6)"
    using create_examples_two [OF x1 x2] by (simp add: examples_def calls_before_evaluate_def)
  have r1: "\<And>f. and_then bootstrap f (init e) = f () ?s1"
    by (simp add: and_then_def b)
  have r2: "\<And>f. and_then (environ_get ''GOOGLE_API_KEY'') f ?s1 = f g ?s1"
    by (simp add: and_then_def k)
  have r3: "\<And>f. and_then (call (\<lambda>h. ChatGoogleGenerativeAI w h g ''gemini-1.5-flash'') ?e1) f ?s1
                 = f ch ?s2"
    by (simp add: and_then_def call_def ch)
  have r4: "\<And>f. and_then (call (\<lambda>h. wrap_google_generative_ai w h ch) ?e2) f ?s2 = f oc ?s3"
    by (simp add: and_then_def call_def oc)
  have r5: "\<And>f. and_then (call (Client w) Call_Client) f ?s3 = f c ?s4"
    by (simp add: and_then_def call_def c)
  have r6: "\<And>f. and_then (call (\<lambda>h. create_dataset w h c ''ds-somber-trailer-42''
                                        ''A sample dataset in LangSmith.'') ?e4) f ?s4 = f d ?s5"
    by (simp add: and_then_def call_def d)
  have r7: "\<And>f. and_then (create_examples w c d examples) f ?s5 = f () ?s6"
    by (simp add: and_then_def ex)
  have r8: "and_then
              (call (\<lambda>h. evaluate w h c Ref_target ''ds-somber-trailer-42''
                             [Ref_correctness_evaluator]
                             ''experiment-quickstart-excellent-curiosity-99'' 2)
                    (Call_evaluate c Ref_target ''ds-somber-trailer-42''
                       [Ref_correctness_evaluator]
                       ''experiment-quickstart-excellent-curiosity-99'' 2))
              (\<lambda>experiment_results s.
                  (Inr (), print [''Evaluation completed. Results:'', py_str w experiment_results] s))
              ?s6 =
            (case evaluate w ?h c Ref_target ''ds-somber-trailer-42'' [Ref_correctness_evaluator]
                    ''experiment-quickstart-excellent-curiosity-99'' 2 of
               Inl err \<Rightarrow>
                 (Inl err,
                  \<lparr>environ = final_environ e v, trace = ?h @ [evaluate_call c], stdout = []\<rparr>)
             | Inr r \<Rightarrow>
                 (Inr (),
                  \<lparr>environ = final_environ e v, trace = ?h @ [evaluate_call c],
                   stdout = ''Evaluation completed. Results: '' @ py_str w r @ [CHR 0x0A]\<rparr>))"
    by (simp add: and_then_def call_def print_def evaluate_call_def split: sum.splits)
  have final: "run w e =
          (case evaluate w ?h c Ref_target ''ds-somber-trailer-42'' [Ref_correctness_evaluator]
                  ''experiment-quickstart-excellent-curiosity-99'' 2 of
             Inl err \<Rightarrow>
               (Inl err,
                \<lparr>environ = final_environ e v, trace = ?h @ [evaluate_call c], stdout = []\<rparr>)
           | Inr r \<Rightarrow>
               (Inr (),
                \<lparr>environ = final_environ e v, trace = ?h @ [evaluate_call c],
                 stdout = ''Evaluation completed. Results: '' @ py_str w r @ [CHR 0x0A]\<rparr>))"
    unfolding run_def script_def by (simp only: r1 r2 r3 r4 r5 r6 r7 r8)
  show ?thesis
    by (rule exI [where x = ch], rule exI [where x = c], rule exI [where x = d], rule final)
qed

lemma run_trace_at_evaluate:
  assumes "e ''LANGSMITH_API_KEY'' = Some v" and "v \<noteq> []"
    and "e ''GOOGLE_API_KEY'' = Some g" and "g \<noteq> []"
    and "\<And>h k m. succeeds (ChatGoogleGenerativeAI w h k m)"
    and "\<And>h c. succeeds (wrap_google_generative_ai w h c)"
    and "\<And>h. succeeds (Client w h)"
    and "\<And>h c n d. succeeds (create_dataset w h c n d)"
    and "\<And>h c i ins outs. succeeds (create_example w h c i ins outs)"
  shows "\<exists>chat c (d :: dataset).
           trace (snd (run w e)) = calls_before_evaluate g chat c d @ [evaluate_call c]"
proof -
  from run_reaches_evaluate [of e v g w, OF assms]
  obtain chat c and d :: dataset where
    r: "run w e =
             (case evaluate w (calls_before_evaluate g chat c d) c Ref_target
                     ''ds-somber-trailer-42'' [Ref_correctness_evaluator]
                     ''experiment-quickstart-excellent-curiosity-99'' 2 of
                Inl err \<Rightarrow>
                  (Inl err,
                   \<lparr>environ = final_environ e v,
                    trace = calls_before_evaluate g chat c d @ [evaluate_call c],
                    stdout = []\<rparr>)
              | Inr r \<Rightarrow>
                  (Inr (),
                   \<lparr>environ = final_environ e v,
                    trace = calls_before_evaluate g chat c d @ [evaluate_call c],
                    stdout = ''Evaluation completed. Results: '' @ py_str w r @ [CHR 0x0A]\<rparr>))"
    by (elim exE)
  have "trace (snd (run w e)) = calls_before_evaluate g chat c d @ [evaluate_call c]"
    unfolding r
    by (cases "evaluate w (calls_before_evaluate g chat c d) c Ref_target
                 ''ds-somber-trailer-42'' [Ref_correctness_evaluator]
                 ''experiment-quickstart-excellent-curiosity-99'' 2") simp_all
  then show ?thesis by (intro exI)
qed

subsection \<open>Claims\<close>

text \<open>
  C1. If \<open>LANGSMITH_API_KEY\<close> or \<open>GOOGLE_API_KEY\<close> is unset, the script fails with the
  \<open>ValueError\<close> of the first failing check and the record of library calls is empty: no
  chat client was constructed, no dataset or example created, and evaluate was not called.
\<close>

theorem missing_credential_no_network_call:
  assumes "e ''LANGSMITH_API_KEY'' = None \<or> e ''GOOGLE_API_KEY'' = None"
  shows "fst (run w e) =
           Inl (ValueError
                  (if e ''LANGSMITH_API_KEY'' = None \<or> e ''LANGSMITH_API_KEY'' = Some []
                   then ''Please set the LANGSMITH_API_KEY environment variable''
                   else ''Please set the GOOGLE_API_KEY environment variable''))
         \<and> trace (snd (run w e)) = []"
proof -
  from assms have "\<not> truthy (e ''LANGSMITH_API_KEY'') \<or> \<not> truthy (e ''GOOGLE_API_KEY'')"
    by auto
  from run_missing_credential [of e, OF this] show ?thesis
    by (simp add: not_truthy_iff)
qed

theorem missing_credential_no_network_call_witness:
  "((Map.empty :: string \<rightharpoonup> string) ''LANGSMITH_API_KEY'' = None
      \<or> (Map.empty :: string \<rightharpoonup> string) ''GOOGLE_API_KEY'' = None)
   \<and> fst (run stub_world Map.empty) =
         Inl (ValueError ''Please set the LANGSMITH_API_KEY environment variable'')
   \<and> trace (snd (run stub_world Map.empty)) = []"
  using missing_credential_no_network_call [of Map.empty stub_world] by simp

text \<open>
  C2. For every question string \<open>Q\<close>: if the chat client, called with the fixed system
  message and \<open>Q\<close> as the user message, returns a response whose content is the text \<open>T\<close>,
  then \<open>target({"question": Q})\<close> returns exactly \<open>{"answer": T}\<close>, and the call of the
  client is its only effect.
\<close>

theorem target_returns_answer:
  assumes "invoke w (trace s) openai_client
             [[''role'' \<mapsto> PStr ''system'',
               ''content'' \<mapsto> PStr ''Answer the following question accurately''],
              [''role'' \<mapsto> PStr ''user'', ''content'' \<mapsto> PStr Q]] = Inr r"
    and "content r = PStr T"
  shows "target w openai_client [''question'' \<mapsto> PStr Q] s =
           (Inr [''answer'' \<mapsto> PStr T],
            s\<lparr>trace := trace s @
                 [Call_invoke openai_client
                    [[''role'' \<mapsto> PStr ''system'',
                      ''content'' \<mapsto> PStr ''Answer the following question accurately''],
                     [''role'' \<mapsto> PStr ''user'', ''content'' \<mapsto> PStr Q]]]\<rparr>)"
  using assms by (simp add: target_def and_then_def call_def)

theorem target_returns_answer_witness:
  "target stub_world (Obj 2) [''question'' \<mapsto> PStr ''Which country is Mount Kilimanjaro located in?'']
     (init Map.empty) =
     (Inr [''answer'' \<mapsto> PStr ''Tanzania''],
      (init Map.empty)
        \<lparr>trace := trace (init Map.empty) @
           [Call_invoke (Obj 2)
              [[''role'' \<mapsto> PStr ''system'',
                ''content'' \<mapsto> PStr ''Answer the following question accurately''],
               [''role'' \<mapsto> PStr ''user'',
                ''content'' \<mapsto> PStr ''Which country is Mount Kilimanjaro located in?'']]]\<rparr>)"
  by (rule target_returns_answer [where r = "\<lparr>content = PStr ''Tanzania''\<rparr>"])
     (simp_all add: stub_world_def)

text \<open>
  C3. For every three argument dicts, \<open>correctness_evaluator\<close> calls the grader that
  \<open>create_llm_as_judge\<close> returned with exactly these three values, and its outcome is the
  outcome of that call (the value returned, or the exception raised); the two calls are all
  it does.
\<close>

theorem correctness_evaluator_pass_through:
  assumes "create_llm_as_judge w (trace s) (CORRECTNESS_PROMPT w) ''gemini-1.5-flash''
             ''correctness'' = Inr grader"
  shows "fst (correctness_evaluator w inputs outputs reference_outputs s) =
           evaluator_call w
             (trace s @ [Call_create_llm_as_judge (CORRECTNESS_PROMPT w) ''gemini-1.5-flash''
                           ''correctness''])
             grader inputs outputs reference_outputs
         \<and> trace (snd (correctness_evaluator w inputs outputs reference_outputs s)) =
             trace s @ [Call_create_llm_as_judge (CORRECTNESS_PROMPT w) ''gemini-1.5-flash''
                          ''correctness'',
                        Call_evaluator grader inputs outputs reference_outputs]"
  using assms
  by (simp add: correctness_evaluator_def and_then_def call_def split: sum.splits)

theorem correctness_evaluator_pass_through_witness:
  "fst (correctness_evaluator stub_world
          [''question'' \<mapsto> PStr ''What is Earth's lowest point?'']
          [''answer'' \<mapsto> PStr ''The Dead Sea'']
          [''answer'' \<mapsto> PStr ''Earth's lowest point is The Dead Sea.'']
          (init Map.empty)) = Inr (Obj 8)
   \<and> trace (snd (correctness_evaluator stub_world
          [''question'' \<mapsto> PStr ''What is Earth's lowest point?'']
          [''answer'' \<mapsto> PStr ''The Dead Sea'']
          [''answer'' \<mapsto> PStr ''Earth's lowest point is The Dead Sea.'']
          (init Map.empty))) =
       [Call_create_llm_as_judge ''Is the answer correct?'' ''gemini-1.5-flash'' ''correctness'',
        Call_evaluator (Obj 7)
          [''question'' \<mapsto> PStr ''What is Earth's lowest point?'']
          [''answer'' \<mapsto> PStr ''The Dead Sea'']
          [''answer'' \<mapsto> PStr ''Earth's lowest point is The Dead Sea.'']]"
  using correctness_evaluator_pass_through
          [of stub_world "init Map.empty" "Obj 7"
              "[''question'' \<mapsto> PStr ''What is Earth's lowest point?'']"
              "[''answer'' \<mapsto> PStr ''The Dead Sea'']"
              "[''answer'' \<mapsto> PStr ''Earth's lowest point is The Dead Sea.'']"]
  by (simp add: stub_world_def init_def)

text \<open>
  C4. When the calls before it return, the script makes one evaluate call, with
  \<open>max_concurrency\<close> 2 and with \<open>data\<close> the string \<open>ds-somber-trailer-42\<close>, which is the
  \<open>dataset_name\<close> of the one dataset creation. This holds whether evaluate then returns or
  raises.
\<close>

theorem evaluate_call_arguments:
  assumes "e ''LANGSMITH_API_KEY'' = Some v" and "v \<noteq> []"
    and "e ''GOOGLE_API_KEY'' = Some g" and "g \<noteq> []"
    and "\<And>h k m. succeeds (ChatGoogleGenerativeAI w h k m)"
    and "\<And>h c. succeeds (wrap_google_generative_ai w h c)"
    and "\<And>h. succeeds (Client w h)"
    and "\<And>h c n d. succeeds (create_dataset w h c n d)"
    and "\<And>h c i ins outs. succeeds (create_example w h c i ins outs)"
  shows "evaluate_calls (trace (snd (run w e))) = [(''ds-somber-trailer-42'', 2)]
         \<and> create_dataset_calls (trace (snd (run w e))) = [''ds-somber-trailer-42'']"
proof -
  from run_trace_at_evaluate [of e v g w, OF assms]
  obtain chat c and d :: dataset where
    "trace (snd (run w e)) = calls_before_evaluate g chat c d @ [evaluate_call c]"
    by (elim exE)
  then show ?thesis
    by (simp add: calls_before_evaluate_def evaluate_call_def)
qed

theorem evaluate_call_arguments_witness:
  "evaluate_calls
     (trace (snd (run stub_world [''LANGSMITH_API_KEY'' \<mapsto> ''ls-key'', ''GOOGLE_API_KEY'' \<mapsto> ''g-key''])))
     = [(''ds-somber-trailer-42'', 2)]
   \<and> create_dataset_calls
     (trace (snd (run stub_world [''LANGSMITH_API_KEY'' \<mapsto> ''ls-key'', ''GOOGLE_API_KEY'' \<mapsto> ''g-key''])))
     = [''ds-somber-trailer-42'']"
  by (rule evaluate_call_arguments [where v = "''ls-key''" and g = "''g-key''"])
     (simp_all add: stub_world_def)

text \<open>
  C5, as stated, fails: with \<open>LANGSMITH_API_KEY\<close> bound to the empty string both variables
  are present in the environment, and the missing-credential error is raised all the same.
\<close>

theorem missing_credential_error_iff_counterexample:
  "[''LANGSMITH_API_KEY'' \<mapsto> '''', ''GOOGLE_API_KEY'' \<mapsto> ''g-key''] ''LANGSMITH_API_KEY'' \<noteq> None
   \<and> [''LANGSMITH_API_KEY'' \<mapsto> '''', ''GOOGLE_API_KEY'' \<mapsto> ''g-key''] ''GOOGLE_API_KEY'' \<noteq> None
   \<and> run stub_world [''LANGSMITH_API_KEY'' \<mapsto> '''', ''GOOGLE_API_KEY'' \<mapsto> ''g-key''] =
       (Inl (ValueError ''Please set the LANGSMITH_API_KEY environment variable''),
        \<lparr>environ = [''LANGSMITH_API_KEY'' \<mapsto> '''', ''GOOGLE_API_KEY'' \<mapsto> ''g-key'',
                     ''LANGSMITH_TRACING'' \<mapsto> ''true'',
                     ''LANGSMITH_ENDPOINT'' \<mapsto> ''https://api.smith.langchain.com''],
         trace = [], stdout = []\<rparr>)"
  by (simp add: run_def script_def and_then_def bootstrap_def init_def environ_set_def getenv_def)

text \<open>
  C5, amended. The credential checks raise if and only if \<open>LANGSMITH_API_KEY\<close> or
  \<open>GOOGLE_API_KEY\<close> is absent from the environment or bound to the empty string. The error
  is a \<open>ValueError\<close> whose message names the first variable that fails its check, and it
  ends the run: no library call is made and nothing is printed.
\<close>

theorem missing_credential_error_iff:
  "((\<exists>err. fst (bootstrap (init e)) = Inl err) \<longleftrightarrow>
      (e ''LANGSMITH_API_KEY'' = None \<or> e ''LANGSMITH_API_KEY'' = Some []
       \<or> e ''GOOGLE_API_KEY'' = None \<or> e ''GOOGLE_API_KEY'' = Some []))
   \<and> (e ''LANGSMITH_API_KEY'' = None \<or> e ''LANGSMITH_API_KEY'' = Some [] \<longrightarrow>
        run w e =
          (Inl (ValueError ''Please set the LANGSMITH_API_KEY environment variable''),
           \<lparr>environ = e(''LANGSMITH_TRACING'' \<mapsto> ''true'',
                         ''LANGSMITH_ENDPOINT'' \<mapsto> ''https://api.smith.langchain.com''),
            trace = [], stdout = []\<rparr>))
   \<and> (\<not> (e ''LANGSMITH_API_KEY'' = None \<or> e ''LANGSMITH_API_KEY'' = Some [])
        \<and> (e ''GOOGLE_API_KEY'' = None \<or> e ''GOOGLE_API_KEY'' = Some []) \<longrightarrow>
        run w e =
          (Inl (ValueError ''Please set the GOOGLE_API_KEY environment variable''),
           \<lparr>environ = e(''LANGSMITH_TRACING'' \<mapsto> ''true'',
                         ''LANGSMITH_ENDPOINT'' \<mapsto> ''https://api.smith.langchain.com''),
            trace = [], stdout = []\<rparr>))"
proof (intro conjI impI)
  show "(\<exists>err. fst (bootstrap (init e)) = Inl err) \<longleftrightarrow>
      (e ''LANGSMITH_API_KEY'' = None \<or> e ''LANGSMITH_API_KEY'' = Some []
       \<or> e ''GOOGLE_API_KEY'' = None \<or> e ''GOOGLE_API_KEY'' = Some [])"
    unfolding bootstrap_raises_iff not_truthy_iff by blast
next
  assume "e ''LANGSMITH_API_KEY'' = None \<or> e ''LANGSMITH_API_KEY'' = Some []"
  then have f: "\<not> truthy (e ''LANGSMITH_API_KEY'')" by (simp add: not_truthy_iff)
  then have "\<not> truthy (e ''LANGSMITH_API_KEY'') \<or> \<not> truthy (e ''GOOGLE_API_KEY'')" by simp
  from run_missing_credential [of e w, OF this] f
  show "run w e =
          (Inl (ValueError ''Please set the LANGSMITH_API_KEY environment variable''),
           \<lparr>environ = e(''LANGSMITH_TRACING'' \<mapsto> ''true'',
                         ''LANGSMITH_ENDPOINT'' \<mapsto> ''https://api.smith.langchain.com''),
            trace = [], stdout = []\<rparr>)"
    by simp
next
  assume a: "\<not> (e ''LANGSMITH_API_KEY'' = None \<or> e ''LANGSMITH_API_KEY'' = Some [])
        \<and> (e ''GOOGLE_API_KEY'' = None \<or> e ''GOOGLE_API_KEY'' = Some [])"
  then have t: "truthy (e ''LANGSMITH_API_KEY'')" and f: "\<not> truthy (e ''GOOGLE_API_KEY'')"
    using not_truthy_iff [of "e ''LANGSMITH_API_KEY''"] not_truthy_iff [of "e ''GOOGLE_API_KEY''"]
    by blast+
  from f have "\<not> truthy (e ''LANGSMITH_API_KEY'') \<or> \<not> truthy (e ''GOOGLE_API_KEY'')" by simp
  from run_missing_credential [of e w, OF this] t
  show "run w e =
          (Inl (ValueError ''Please set the GOOGLE_API_KEY environment variable''),
           \<lparr>environ = e(''LANGSMITH_TRACING'' \<mapsto> ''true'',
                         ''LANGSMITH_ENDPOINT'' \<mapsto> ''https://api.smith.langchain.com''),
            trace = [], stdout = []\<rparr>)"
    by simp
qed

theorem missing_credential_error_iff_witness:
  "run stub_world [''GOOGLE_API_KEY'' \<mapsto> ''g-key''] =
     (Inl (ValueError ''Please set the LANGSMITH_API_KEY environment variable''),
      \<lparr>environ = [''GOOGLE_API_KEY'' \<mapsto> ''g-key'',
                   ''LANGSMITH_TRACING'' \<mapsto> ''true'',
                   ''LANGSMITH_ENDPOINT'' \<mapsto> ''https://api.smith.langchain.com''],
       trace = [], stdout = []\<rparr>)
   \<and> run stub_world [''LANGSMITH_API_KEY'' \<mapsto> ''ls-key'', ''GOOGLE_API_KEY'' \<mapsto> ''''] =
     (Inl (ValueError ''Please set the GOOGLE_API_KEY environment variable''),
      \<lparr>environ = [''LANGSMITH_API_KEY'' \<mapsto> ''ls-key'', ''GOOGLE_API_KEY'' \<mapsto> '''',
                   ''LANGSMITH_TRACING'' \<mapsto> ''true'',
                   ''LANGSMITH_ENDPOINT'' \<mapsto> ''https://api.smith.langchain.com''],
       trace = [], stdout = []\<rparr>)
   \<and> fst (bootstrap (init [''LANGSMITH_API_KEY'' \<mapsto> ''ls-key'', ''GOOGLE_API_KEY'' \<mapsto> ''g-key'']))
       \<noteq> Inl (ValueError ''Please set the GOOGLE_API_KEY environment variable'')"
  using missing_credential_error_iff [of "[''GOOGLE_API_KEY'' \<mapsto> ''g-key'']" stub_world]
    missing_credential_error_iff
      [of "[''LANGSMITH_API_KEY'' \<mapsto> ''ls-key'', ''GOOGLE_API_KEY'' \<mapsto> '''']" stub_world]
    missing_credential_error_iff
      [of "[''LANGSMITH_API_KEY'' \<mapsto> ''ls-key'', ''GOOGLE_API_KEY'' \<mapsto> ''g-key'']" stub_world]
  by simp

text \<open>
  C6. When the calls return, dataset seeding makes exactly two example creations, in this
  order and with these contents: the Kilimanjaro question with its answer, then the
  lowest-point question with its answer. Each record of \<open>examples\<close> has the two keys
  \<open>inputs\<close> and \<open>outputs\<close>.
\<close>

theorem seeded_examples:
  assumes "e ''LANGSMITH_API_KEY'' = Some v" and "v \<noteq> []"
    and "e ''GOOGLE_API_KEY'' = Some g" and "g \<noteq> []"
    and "\<And>h k m. succeeds (ChatGoogleGenerativeAI w h k m)"
    and "\<And>h c. succeeds (wrap_google_generative_ai w h c)"
    and "\<And>h. succeeds (Client w h)"
    and "\<And>h c n d. succeeds (create_dataset w h c n d)"
    and "\<And>h c i ins outs. succeeds (create_example w h c i ins outs)"
  shows "create_example_calls (trace (snd (run w e))) =
           [([''question'' \<mapsto> PStr ''Which country is Mount Kilimanjaro located in?''],
             [''answer'' \<mapsto> PStr ''Mount Kilimanjaro is located in Tanzania.'']),
            ([''question'' \<mapsto> PStr ''What is Earth's lowest point?''],
             [''answer'' \<mapsto> PStr ''Earth's lowest point is The Dead Sea.''])]
         \<and> map dom examples = [{''inputs'', ''outputs''}, {''inputs'', ''outputs''}]"
proof -
  from run_trace_at_evaluate [of e v g w, OF assms]
  obtain chat c and d :: dataset where
    "trace (snd (run w e)) = calls_before_evaluate g chat c d @ [evaluate_call c]"
    by (elim exE)
  then have "create_example_calls (trace (snd (run w e))) =
           [([''question'' \<mapsto> PStr ''Which country is Mount Kilimanjaro located in?''],
             [''answer'' \<mapsto> PStr ''Mount Kilimanjaro is located in Tanzania.'']),
            ([''question'' \<mapsto> PStr ''What is Earth's lowest point?''],
             [''answer'' \<mapsto> PStr ''Earth's lowest point is The Dead Sea.''])]"
    by (simp add: calls_before_evaluate_def evaluate_call_def)
  moreover have "map dom examples = [{''inputs'', ''outputs''}, {''inputs'', ''outputs''}]"
    by (auto simp: examples_def)
  ultimately show ?thesis by (rule conjI)
qed

theorem seeded_examples_witness:
  "create_example_calls
     (trace (snd (run stub_world [''LANGSMITH_API_KEY'' \<mapsto> ''ls-key'', ''GOOGLE_API_KEY'' \<mapsto> ''g-key'']))) =
           [([''question'' \<mapsto> PStr ''Which country is Mount Kilimanjaro located in?''],
             [''answer'' \<mapsto> PStr ''Mount Kilimanjaro is located in Tanzania.'']),
            ([''question'' \<mapsto> PStr ''What is Earth's lowest point?''],
             [''answer'' \<mapsto> PStr ''Earth's lowest point is The Dead Sea.''])]
   \<and> map dom examples = [{''inputs'', ''outputs''}, {''inputs'', ''outputs''}]"
  by (rule seeded_examples [where v = "''ls-key''" and g = "''g-key''"])
     (simp_all add: stub_world_def)




text \<open>
  C8. A credential that is present but bound to the empty string is treated as an absent
  one: if \<open>LANGSMITH_API_KEY\<close> or \<open>GOOGLE_API_KEY\<close> is \<open>""\<close>, the script fails with the
  missing-credential \<open>ValueError\<close> before any library call, and the outcome is the one of
  the run in which that variable is removed from the environment.
\<close>

theorem empty_credential_is_missing:
  assumes "e ''LANGSMITH_API_KEY'' = Some [] \<or> e ''GOOGLE_API_KEY'' = Some []"
  shows "fst (run w e) =
           Inl (ValueError
                  (if e ''LANGSMITH_API_KEY'' = None \<or> e ''LANGSMITH_API_KEY'' = Some []
                   then ''Please set the LANGSMITH_API_KEY environment variable''
                   else ''Please set the GOOGLE_API_KEY environment variable''))
         \<and> trace (snd (run w e)) = []
         \<and> (e ''LANGSMITH_API_KEY'' = Some [] \<longrightarrow>
              fst (run w e) = fst (run w (e(''LANGSMITH_API_KEY'' := None))))
         \<and> (e ''GOOGLE_API_KEY'' = Some [] \<longrightarrow>
              fst (run w e) = fst (run w (e(''GOOGLE_API_KEY'' := None))))"
proof -
  from assms have f: "\<not> truthy (e ''LANGSMITH_API_KEY'') \<or> \<not> truthy (e ''GOOGLE_API_KEY'')"
    by auto
  note r = run_missing_credential [of e w, OF f]
  have a: "e ''LANGSMITH_API_KEY'' = Some [] \<Longrightarrow>
             fst (run w e) = fst (run w (e(''LANGSMITH_API_KEY'' := None)))"
  proof -
    assume l: "e ''LANGSMITH_API_KEY'' = Some []"
    have "\<not> truthy ((e(''LANGSMITH_API_KEY'' := None)) ''LANGSMITH_API_KEY'')
            \<or> \<not> truthy ((e(''LANGSMITH_API_KEY'' := None)) ''GOOGLE_API_KEY'')"
      by simp
    from run_missing_credential [of "e(''LANGSMITH_API_KEY'' := None)" w, OF this] r l show ?thesis by simp
  qed
  have b: "e ''GOOGLE_API_KEY'' = Some [] \<Longrightarrow>
             fst (run w e) = fst (run w (e(''GOOGLE_API_KEY'' := None)))"
  proof -
    assume g: "e ''GOOGLE_API_KEY'' = Some []"
    have "\<not> truthy ((e(''GOOGLE_API_KEY'' := None)) ''LANGSMITH_API_KEY'')
            \<or> \<not> truthy ((e(''GOOGLE_API_KEY'' := None)) ''GOOGLE_API_KEY'')"
      by simp
    from run_missing_credential [of "e(''GOOGLE_API_KEY'' := None)" w, OF this] r g show ?thesis by simp
  qed
  from r a b show ?thesis by (simp add: not_truthy_iff)
qed

theorem empty_credential_is_missing_witness:
  "([''LANGSMITH_API_KEY'' \<mapsto> ''ls-key'', ''GOOGLE_API_KEY'' \<mapsto> ''''] ''LANGSMITH_API_KEY'' = Some []
      \<or> [''LANGSMITH_API_KEY'' \<mapsto> ''ls-key'', ''GOOGLE_API_KEY'' \<mapsto> ''''] ''GOOGLE_API_KEY'' = Some [])
   \<and> fst (run stub_world [''LANGSMITH_API_KEY'' \<mapsto> ''ls-key'', ''GOOGLE_API_KEY'' \<mapsto> '''']) =
         Inl (ValueError ''Please set the GOOGLE_API_KEY environment variable'')
   \<and> trace (snd (run stub_world [''LANGSMITH_API_KEY'' \<mapsto> ''ls-key'', ''GOOGLE_API_KEY'' \<mapsto> ''''])) = []
   \<and> fst (run stub_world [''LANGSMITH_API_KEY'' \<mapsto> ''ls-key'']) =
         Inl (ValueError ''Please set the GOOGLE_API_KEY environment variable'')"
  using empty_credential_is_missing
          [of "[''LANGSMITH_API_KEY'' \<mapsto> ''ls-key'', ''GOOGLE_API_KEY'' \<mapsto> '''']" stub_world]
  by auto

text \<open>
  C9, as stated, fails in its last clause: started with \<open>LANGSMITH_TRACING\<close> and
  \<open>LANGSMITH_ENDPOINT\<close> already bound to the values the script writes, and no credential,
  the run fails and leaves the environment as it was.
\<close>

theorem failed_startup_environment_counterexample:
  "fst (run stub_world
          [''LANGSMITH_TRACING'' \<mapsto> ''true'',
           ''LANGSMITH_ENDPOINT'' \<mapsto> ''https://api.smith.langchain.com'']) =
     Inl (ValueError ''Please set the LANGSMITH_API_KEY environment variable'')
   \<and> environ (snd (run stub_world
          [''LANGSMITH_TRACING'' \<mapsto> ''true'',
           ''LANGSMITH_ENDPOINT'' \<mapsto> ''https://api.smith.langchain.com''])) =
       [''LANGSMITH_TRACING'' \<mapsto> ''true'',
        ''LANGSMITH_ENDPOINT'' \<mapsto> ''https://api.smith.langchain.com'']"
  by (simp add: run_def script_def and_then_def bootstrap_def init_def environ_set_def getenv_def)

text \<open>
  C9, amended. When the credential checks raise, the run ends there, and the two tracing
  variables have been written before: the environment is the initial one with
  \<open>LANGSMITH_TRACING\<close> bound to \<open>true\<close> and \<open>LANGSMITH_ENDPOINT\<close> to
  \<open>https://api.smith.langchain.com\<close>. It equals the initial environment exactly when
  both variables were bound to these values already.
\<close>

theorem failed_startup_environment:
  assumes "fst (bootstrap (init e)) = Inl err"
  shows "run w e = bootstrap (init e)
         \<and> environ (snd (run w e)) =
             e(''LANGSMITH_TRACING'' \<mapsto> ''true'',
               ''LANGSMITH_ENDPOINT'' \<mapsto> ''https://api.smith.langchain.com'')
         \<and> (environ (snd (run w e)) = e \<longleftrightarrow>
              e ''LANGSMITH_TRACING'' = Some ''true''
              \<and> e ''LANGSMITH_ENDPOINT'' = Some ''https://api.smith.langchain.com'')"
proof -
  have b: "bootstrap (init e) = (Inl err, snd (bootstrap (init e)))"
    using assms by (cases "bootstrap (init e)") simp
  have same: "run w e = bootstrap (init e)"
    using run_bootstrap_fails [OF b, of w] b by simp
  from assms have "\<not> truthy (e ''LANGSMITH_API_KEY'') \<or> \<not> truthy (e ''GOOGLE_API_KEY'')"
    using bootstrap_raises_iff [of e] by blast
  from run_missing_credential [of e w, OF this]
  have env: "environ (snd (run w e)) =
               e(''LANGSMITH_TRACING'' \<mapsto> ''true'',
                 ''LANGSMITH_ENDPOINT'' \<mapsto> ''https://api.smith.langchain.com'')"
    by simp
  have "(e(''LANGSMITH_TRACING'' \<mapsto> ''true'',
           ''LANGSMITH_ENDPOINT'' \<mapsto> ''https://api.smith.langchain.com'') = e) \<longleftrightarrow>
          e ''LANGSMITH_TRACING'' = Some ''true''
          \<and> e ''LANGSMITH_ENDPOINT'' = Some ''https://api.smith.langchain.com''"
  proof
    assume eq: "e(''LANGSMITH_TRACING'' \<mapsto> ''true'',
                  ''LANGSMITH_ENDPOINT'' \<mapsto> ''https://api.smith.langchain.com'') = e"
    have "e ''LANGSMITH_TRACING'' = Some ''true''"
      by (subst eq [symmetric]) simp
    moreover have "e ''LANGSMITH_ENDPOINT'' = Some ''https://api.smith.langchain.com''"
      by (subst eq [symmetric]) simp
    ultimately show "e ''LANGSMITH_TRACING'' = Some ''true''
          \<and> e ''LANGSMITH_ENDPOINT'' = Some ''https://api.smith.langchain.com''" ..
  next
    assume "e ''LANGSMITH_TRACING'' = Some ''true''
          \<and> e ''LANGSMITH_ENDPOINT'' = Some ''https://api.smith.langchain.com''"
    then show "e(''LANGSMITH_TRACING'' \<mapsto> ''true'',
                  ''LANGSMITH_ENDPOINT'' \<mapsto> ''https://api.smith.langchain.com'') = e"
      by (simp add: map_upd_triv)
  qed
  with same env show ?thesis by simp
qed

theorem failed_startup_environment_witness:
  "fst (bootstrap (init Map.empty)) =
     Inl (ValueError ''Please set the LANGSMITH_API_KEY environment variable'')
   \<and> environ (snd (run stub_world Map.empty)) =
       [''LANGSMITH_TRACING'' \<mapsto> ''true'',
        ''LANGSMITH_ENDPOINT'' \<mapsto> ''https://api.smith.langchain.com'']
   \<and> environ (snd (run stub_world Map.empty)) \<noteq> Map.empty"
proof -
  have f: "fst (bootstrap (init Map.empty)) =
             Inl (ValueError ''Please set the LANGSMITH_API_KEY environment variable'')"
    by (simp add: bootstrap_def init_def environ_set_def getenv_def)
  from failed_startup_environment [OF f, of stub_world, THEN conjunct2] f show ?thesis
    by simp
qed

text \<open>
  C10. For every inputs dict without the key \<open>"question"\<close>, \<open>target\<close> raises \<open>KeyError\<close>
  and leaves the state as it was: the chat client is not invoked.
\<close>

theorem target_missing_question:
  assumes "inputs ''question'' = None"
  shows "target w openai_client inputs s = (Inl (KeyError ''question''), s)"
  using assms by (simp add: target_def)

theorem target_missing_question_witness:
  "[''query'' \<mapsto> PStr ''Where is Kilimanjaro?''] ''question'' = None
   \<and> target stub_world (Obj 2) [''query'' \<mapsto> PStr ''Where is Kilimanjaro?'']
        \<lparr>environ = Map.empty, trace = [Call_Client], stdout = []\<rparr>
      = (Inl (KeyError ''question''), \<lparr>environ = Map.empty, trace = [Call_Client], stdout = []\<rparr>)"
  using target_missing_question [of "[''query'' \<mapsto> PStr ''Where is Kilimanjaro?'']" stub_world "Obj 2"
      "\<lparr>environ = Map.empty, trace = [Call_Client], stdout = []\<rparr>"]
  by simp

end
